theory Spec2Isabelle
  imports Main "HOL-Library.Word"
begin

section \<open>The string store of \<^verbatim>\<open>datastructure/string.go\<close>\<close>

text \<open>
  The file defines \<^verbatim>\<open>StringStore\<close>: a Go map from keys to entries (a value, the time of
  creation and an expiry time), with the methods \<^verbatim>\<open>Set\<close>, \<^verbatim>\<open>Get\<close>, \<^verbatim>\<open>Delete\<close>,
  \<^verbatim>\<open>Increment\<close> and \<^verbatim>\<open>Keys\<close> and a background goroutine that deletes expired entries.

  Every method takes the store's lock for its whole body, so the methods are atomic steps
  on the map: each is modelled as a function from the store before the call to the result
  and the store after it. The lock itself and the interleaving of goroutines are not
  modelled. What a method reads from outside the store is a parameter of its model: each
  call of \<^verbatim>\<open>time.Now()\<close> is a clock reading passed in, and each \<^verbatim>\<open>range\<close> over the map takes
  the order in which the runtime produces the keys.
\<close>

subsection \<open>Time\<close>

text \<open>
  A \<^verbatim>\<open>time.Time\<close> is modelled as the number of nanoseconds since Go's zero instant
  \<^verbatim>\<open>time.Time{}\<close> (1 January of year 1, 00:00:00 UTC) on one time line; wall clock and
  monotonic clock are taken to agree. A \<^verbatim>\<open>time.Duration\<close> is a signed 64-bit count of
  nanoseconds. The sum of a clock reading and a duration is far inside the range a
  \<^verbatim>\<open>time.Time\<close> represents, so \<^verbatim>\<open>Add\<close> is plain addition.
\<close>

type_synonym Time = int
type_synonym Duration = "64 word"

definition zeroTime :: Time where
  "zeroTime = 0"

definition IsZero :: "Time \<Rightarrow> bool" where
  "IsZero t = (t = 0)"

definition After :: "Time \<Rightarrow> Time \<Rightarrow> bool" where
  "After t u = (u < t)"

definition Add :: "Time \<Rightarrow> Duration \<Rightarrow> Time" where
  "Add t d = t + sint d"

text \<open>
  What \<^verbatim>\<open>time.Now()\<close> can return: an instant after the zero instant. A reading of a
  present-day clock is more than two thousand years after it.
\<close>

definition clock_reading :: "Time \<Rightarrow> bool" where
  "clock_reading now = (0 < now)"

subsection \<open>Go's \<^verbatim>\<open>int\<close> and \<^verbatim>\<open>fmt.Sprintf("%d", n)\<close>\<close>

text \<open>
  Go's \<^verbatim>\<open>int\<close> is the 64-bit signed integer of a 64-bit target; its addition wraps around.
  \<^verbatim>\<open>Sprintf\<close> with the verb \<^verbatim>\<open>%d\<close> writes the decimal digits of the magnitude, most
  significant first, after a minus sign when the number is negative.
\<close>

type_synonym go_int = "64 word"

fun digits10 :: "nat \<Rightarrow> string" where
  "digits10 u = (if u < 10 then [''0123456789'' ! u]
                 else digits10 (u div 10) @ [''0123456789'' ! (u mod 10)])"

declare digits10.simps [simp del]

definition Sprintf_d :: "go_int \<Rightarrow> string" where
  "Sprintf_d n = (if sint n < 0 then CHR ''-'' # digits10 (nat (- sint n))
                  else digits10 (nat (sint n)))"

subsection \<open>\<^verbatim>\<open>fmt.Sscanf(str, "%d", &n)\<close>\<close>

text \<open>
  The scanner reads its input rune by rune. \<^verbatim>\<open>utf8.DecodeRune\<close> gives the first rune of
  a byte string and its width; a byte that starts no well-formed encoding is the rune
  \<^verbatim>\<open>RuneError\<close> of width 1. The case distinction on the first byte is that of the
  table \<^verbatim>\<open>first\<close> of package \<^verbatim>\<open>utf8\<close>, with the accepted range of the second byte.
\<close>

type_synonym rune = nat

definition RuneError :: rune where
  "RuneError = 65533"

definition contb :: "nat \<Rightarrow> bool" where
  "contb b = (128 \<le> b \<and> b \<le> 191)"

fun DecodeRune :: "nat list \<Rightarrow> rune \<times> nat" where
  "DecodeRune [] = (RuneError, 0)"
| "DecodeRune (p0 # p) =
     (if p0 < 128 then (p0, 1)
      else if p0 < 194 \<or> 245 \<le> p0 then (RuneError, 1)
      else
        let sz = (if p0 < 224 then 2 else if p0 < 240 then 3 else 4 :: nat);
            lo = (if p0 = 224 then 160 else if p0 = 240 then 144 else 128 :: nat);
            hi = (if p0 = 237 then 159 else if p0 = 244 then 143 else 191 :: nat)
        in if length (p0 # p) < sz then (RuneError, 1)
           else if p ! 0 < lo \<or> hi < p ! 0 then (RuneError, 1)
           else if sz \<le> 2 then ((p0 mod 32) * 64 + p ! 0 mod 64, 2)
           else if \<not> contb (p ! 1) then (RuneError, 1)
           else if sz \<le> 3 then ((p0 mod 16) * 4096 + (p ! 0 mod 64) * 64 + p ! 1 mod 64, 3)
           else if \<not> contb (p ! 2) then (RuneError, 1)
           else ((p0 mod 8) * 262144 + (p ! 0 mod 64) * 4096 + (p ! 1 mod 64) * 64
                 + p ! 2 mod 64, 4))"

text \<open>
  The runes of a byte string, as successive calls of \<^verbatim>\<open>ReadRune\<close> return them. The width
  of a rune of a non-empty input is at least 1, so every call consumes input.
\<close>

function runes :: "nat list \<Rightarrow> rune list" where
  "runes [] = []"
| "runes (p0 # p) = fst (DecodeRune (p0 # p)) # runes (drop (snd (DecodeRune (p0 # p))) (p0 # p))"
  by pat_completeness auto
termination
proof (relation "measure length")
  show "wf (measure length)" by simp
next
  fix p0 :: nat and p :: "nat list"
  have "1 \<le> snd (DecodeRune (p0 # p))" by (simp add: Let_def)
  then show "(drop (snd (DecodeRune (p0 # p))) (p0 # p), p0 # p) \<in> measure length"
    by simp
qed

declare runes.simps [simp del]

text \<open>The scanner's table of white space, \<^verbatim>\<open>space\<close> in \<^verbatim>\<open>fmt/scan.go\<close>.\<close>

definition isSpace :: "rune \<Rightarrow> bool" where
  "isSpace r = ((9 \<le> r \<and> r \<le> 13) \<or> r = 32 \<or> r = 133 \<or> r = 160 \<or> r = 5760
     \<or> (8192 \<le> r \<and> r \<le> 8202) \<or> r = 8232 \<or> r = 8233 \<or> r = 8239 \<or> r = 8287
     \<or> r = 12288)"

datatype scan_error =
  UnexpectedNewline | EOF | ExpectedInteger | OutOfRange

text \<open>
  \<^verbatim>\<open>SkipSpace\<close>, for \<^verbatim>\<open>Sscanf\<close> (where a newline is not white space): a carriage return
  before a newline is passed over, a newline is an error, other white space is skipped,
  and the first rune that is not white space is left in the input.
\<close>

fun SkipSpace :: "rune list \<Rightarrow> scan_error + rune list" where
  "SkipSpace [] = Inr []"
| "SkipSpace (r # rs) =
     (if r = 13 \<and> (case rs of [] \<Rightarrow> False | r' # _ \<Rightarrow> r' = 10) then SkipSpace rs
      else if r = 10 then Inl UnexpectedNewline
      else if \<not> isSpace r then Inr (r # rs)
      else SkipSpace rs)"

text \<open>
  \<^verbatim>\<open>ParseInt(tok, 10, 64)\<close> on a token of decimal digits with the sign read before it:
  the value of the digits, refused when it does not fit 64 signed bits.
\<close>

definition isDigit :: "rune \<Rightarrow> bool" where
  "isDigit r = (48 \<le> r \<and> r \<le> 57)"

definition ParseUint :: "rune list \<Rightarrow> nat" where
  "ParseUint ds = foldl (\<lambda>n d. n * 10 + (d - 48)) 0 ds"

definition ParseInt :: "bool \<Rightarrow> rune list \<Rightarrow> scan_error + go_int" where
  "ParseInt neg ds =
     (let un = ParseUint ds; cutoff = (2 :: nat) ^ 63
      in if \<not> neg \<and> cutoff \<le> un then Inl OutOfRange
         else if neg \<and> cutoff < un then Inl OutOfRange
         else Inr (if neg then - word_of_nat un else word_of_nat un))"

text \<open>
  \<^verbatim>\<open>scanNumber\<close>: the input must start with a digit; the token is the longest run of
  digits. What follows the token stays unread and is not looked at.
\<close>

definition scanNumber :: "rune list \<Rightarrow> scan_error + rune list" where
  "scanNumber rs =
     (case rs of
        [] \<Rightarrow> Inl EOF
      | r # _ \<Rightarrow> if \<not> isDigit r then Inl ExpectedInteger else Inr (takeWhile isDigit rs))"

text \<open>
  \<^verbatim>\<open>scanInt\<close> for the verb \<^verbatim>\<open>%d\<close>: white space is skipped, the input must not be at its
  end, one sign is accepted, and the number follows.
\<close>

definition scanInt :: "rune list \<Rightarrow> scan_error + go_int" where
  "scanInt rs =
     (case SkipSpace rs of
        Inl e \<Rightarrow> Inl e
      | Inr [] \<Rightarrow> Inl EOF
      | Inr (r # rs') \<Rightarrow>
          (let signed = (r = 43 \<or> r = 45);
               rest = (if signed then rs' else r # rs')
           in case scanNumber rest of
                Inl e \<Rightarrow> Inl e
              | Inr tok \<Rightarrow> ParseInt (r = 45) tok))"

text \<open>
  \<^verbatim>\<open>Sscanf\<close> with the format \<^verbatim>\<open>%d\<close> and one operand. The scanner reads at most
  \<^verbatim>\<open>hugeWid\<close> runes of its input. \<^verbatim>\<open>doScanf\<close> skips white space before the verb, and
  \<^verbatim>\<open>scanInt\<close> does so again. The result is the error, or the integer stored through the
  operand.
\<close>

definition hugeWid :: nat where
  "hugeWid = 2 ^ 30"

definition Sscanf_d :: "string \<Rightarrow> scan_error + go_int" where
  "Sscanf_d str =
     (case SkipSpace (take hugeWid (runes (map of_char str))) of
        Inl e \<Rightarrow> Inl e
      | Inr rs \<Rightarrow> scanInt rs)"

subsection \<open>The store\<close>

text \<open>
  \<^verbatim>\<open>stringEntry\<close> and \<^verbatim>\<open>StringStore\<close>. The field \<^verbatim>\<open>mu\<close>, the lock, has no counterpart:
  the model runs one method at a time.
\<close>

record stringEntry =
  "value" :: string
  createdAt :: Time
  expiresAt :: Time

record StringStore =
  data :: "string \<rightharpoonup> stringEntry"

text \<open>\<^verbatim>\<open>NewStringStore\<close>: an empty map. (The goroutine it starts is the sweeper below.)\<close>

definition NewStringStore :: StringStore where
  "NewStringStore = \<lparr>data = Map.empty\<rparr>"

datatype error = NonNumericValue

text \<open>
  \<^verbatim>\<open>Set\<close> reads the clock twice, for \<^verbatim>\<open>createdAt\<close> and for \<^verbatim>\<open>expiresAt\<close>, and always
  returns the error \<^verbatim>\<open>nil\<close>.
\<close>

definition Set :: "string \<Rightarrow> string \<Rightarrow> Duration \<Rightarrow> Time \<Rightarrow> Time \<Rightarrow> StringStore
    \<Rightarrow> error option \<times> StringStore" where
  "Set key val expiration now1 now2 s =
     (let entry = \<lparr>value = val, createdAt = now1, expiresAt = Add now2 expiration\<rparr>
      in (None, s\<lparr>data := (data s)(key \<mapsto> entry)\<rparr>))"

definition Get :: "string \<Rightarrow> Time \<Rightarrow> StringStore \<Rightarrow> (string \<times> bool) \<times> StringStore" where
  "Get key now s =
     (case data s key of
        None \<Rightarrow> (('''', False), s)
      | Some entry \<Rightarrow>
          if After now (expiresAt entry) then (('''', False), s)
          else ((value entry, True), s))"

definition Delete :: "string \<Rightarrow> StringStore \<Rightarrow> bool \<times> StringStore" where
  "Delete key s =
     (case data s key of
        Some _ \<Rightarrow> (True, s\<lparr>data := (data s)(key := None)\<rparr>)
      | None \<Rightarrow> (False, s))"

text \<open>
  \<^verbatim>\<open>Increment\<close> returns Go's pair of the new value and the error: \<^verbatim>\<open>(0, err)\<close> when the
  stored value does not scan.
\<close>

definition Increment :: "string \<Rightarrow> go_int \<Rightarrow> Time \<Rightarrow> StringStore
    \<Rightarrow> (go_int \<times> error option) \<times> StringStore" where
  "Increment key delta now s =
     (case data s key of
        None \<Rightarrow>
          (let newValue = delta
           in ((newValue, None),
               s\<lparr>data := (data s)(key \<mapsto>
                 \<lparr>value = Sprintf_d newValue, createdAt = now, expiresAt = zeroTime\<rparr>)\<rparr>))
      | Some entry \<Rightarrow>
          (case Sscanf_d (value entry) of
             Inl _ \<Rightarrow> ((0, Some NonNumericValue), s)
           | Inr currentValue \<Rightarrow>
               (let newValue = currentValue + delta
                in ((newValue, None),
                    s\<lparr>data := (data s)(key \<mapsto>
                      \<lparr>value = Sprintf_d newValue, createdAt = createdAt entry,
                       expiresAt = expiresAt entry\<rparr>)\<rparr>))))"

text \<open>
  A \<^verbatim>\<open>range\<close> over a Go map produces every key of the map once, in an order the runtime
  chooses; a key deleted before it is reached is not produced.
\<close>

definition range_order :: "('k \<rightharpoonup> 'v) \<Rightarrow> 'k list \<Rightarrow> bool" where
  "range_order m ks = (distinct ks \<and> set ks = dom m)"

text \<open>
  One wake-up of \<^verbatim>\<open>backgroundCleanup\<close>: the body of its loop over the ticker, with the
  clock reading \<^verbatim>\<open>now\<close> and the order \<^verbatim>\<open>ks\<close> of the \<^verbatim>\<open>range\<close>.
\<close>

definition cleanup_step :: "Time \<Rightarrow> string \<Rightarrow> StringStore \<Rightarrow> StringStore" where
  "cleanup_step now key s =
     (case data s key of
        None \<Rightarrow> s
      | Some entry \<Rightarrow>
          if \<not> IsZero (expiresAt entry) \<and> After now (expiresAt entry)
          then s\<lparr>data := (data s)(key := None)\<rparr>
          else s)"

definition backgroundCleanup_pass :: "Time \<Rightarrow> string list \<Rightarrow> StringStore \<Rightarrow> StringStore" where
  "backgroundCleanup_pass now ks s = fold (cleanup_step now) ks s"

text \<open>\<^verbatim>\<open>Keys\<close> appends each key the \<^verbatim>\<open>range\<close> produces.\<close>

definition Keys :: "string list \<Rightarrow> StringStore \<Rightarrow> string list \<times> StringStore" where
  "Keys ks s = (fold (\<lambda>key keys. keys @ [key]) ks [], s)"

section \<open>Properties\<close>

subsection \<open>Evaluating the scanner and the printer\<close>

lemmas scan_defs = Sscanf_d_def hugeWid_def runes.simps scanInt_def scanNumber_def
  isDigit_def isSpace_def ParseInt_def ParseUint_def


lemma Sscanf_d_abc: "Sscanf_d ''abc'' = Inl ExpectedInteger"
  by (simp add: scan_defs)

lemma Sprintf_d_5: "Sprintf_d 5 = ''5''"
  by (simp add: Sprintf_d_def digits10.simps)


lemma Sscanf_d_12abc: "Sscanf_d ''12abc'' = Inr 12"
  by (simp add: scan_defs)

lemma Sprintf_d_13: "Sprintf_d 13 = ''13''"
  by (simp add: Sprintf_d_def digits10.simps)

subsection \<open>The methods, case by case\<close>

lemma Get_unchanged: "snd (Get key now s) = s"
  by (simp add: Get_def split: option.splits)

lemma Get_found_iff:
  "fst (Get key now s) = (v, True) \<longleftrightarrow>
     (\<exists>e. data s key = Some e \<and> \<not> After now (expiresAt e) \<and> value e = v)"
  by (auto simp: Get_def split: option.splits)

lemma Get_absent: "data s key = None \<Longrightarrow> fst (Get key now s) = ('''', False)"
  by (simp add: Get_def)

lemma Get_zero_expiry:
  "data s key = Some e \<Longrightarrow> IsZero (expiresAt e) \<Longrightarrow> clock_reading now \<Longrightarrow>
   fst (Get key now s) = ('''', False)"
  by (simp add: Get_def IsZero_def After_def clock_reading_def)

lemma Increment_absent:
  "data s key = None \<Longrightarrow>
   Increment key delta now s =
     ((delta, None),
      s\<lparr>data := (data s)(key \<mapsto>
        \<lparr>value = Sprintf_d delta, createdAt = now, expiresAt = zeroTime\<rparr>)\<rparr>)"
  by (simp add: Increment_def)

lemma Increment_create_Get_not_found:
  "data s key = None \<Longrightarrow> clock_reading now' \<Longrightarrow>
   fst (Get key now' (snd (Increment key delta now s))) = ('''', False)"
  by (simp add: Increment_absent Get_def After_def zeroTime_def clock_reading_def)

lemma Increment_unparsable:
  "data s key = Some e \<Longrightarrow> Sscanf_d (value e) = Inl err \<Longrightarrow>
   Increment key delta now s = ((0, Some NonNumericValue), s)"
  by (simp add: Increment_def)


lemma Set_data:
  "data (snd (Set key val d now1 now2 s)) =
     (data s)(key \<mapsto> \<lparr>value = val, createdAt = now1, expiresAt = Add now2 d\<rparr>)"
  by (simp add: Set_def)

lemma Set_expiresAt:
  "data (snd (Set key val d now1 now2 s)) key
     = Some \<lparr>value = val, createdAt = now1, expiresAt = Add now2 d\<rparr>
   \<and> (2 ^ 63 < now2 \<longrightarrow> \<not> IsZero (Add now2 d))"
proof -
  have "- (2 ^ 63) \<le> sint d"
    using sint_ge [of d] by simp
  then have "2 ^ 63 < now2 \<longrightarrow> \<not> IsZero (Add now2 d)"
    by (simp add: IsZero_def Add_def)
  then show ?thesis
    by (simp add: Set_data)
qed

lemma Increment_error_iff:
  "snd (fst (Increment key delta now s)) = Some NonNumericValue
     \<longleftrightarrow> (\<exists>e. data s key = Some e \<and> isl (Sscanf_d (value e)))"
  by (auto simp: Increment_def Let_def split: option.splits sum.splits)

lemma cleanup_fold:
  "data (fold (cleanup_step now) ks s) k =
     (case data s k of
        None \<Rightarrow> None
      | Some e \<Rightarrow> if k \<in> set ks \<and> \<not> IsZero (expiresAt e) \<and> After now (expiresAt e)
                  then None else Some e)"
  by (induction ks arbitrary: s) (auto simp: cleanup_step_def split: option.splits)

lemma fold_snoc: "fold (\<lambda>key keys. keys @ [key]) ks acc = acc @ ks"
  by (induction ks arbitrary: acc) auto

subsection \<open>Claims\<close>

text \<open>
  C1. Increment on an absent key returns the delta and creates an entry holding its
  decimal string, created now, with the zero instant as expiry. The claim goes on: a later
  Get returns that string, however late. The code's Get does not: it asks whether the
  clock is after the expiry, and every clock reading is after the zero instant. The
  sweeper, which tests for the zero instant first, keeps the entry. Evaluated here for
  the key \<^verbatim>\<open>"missing"\<close>, the delta 5, a Get one nanosecond after the Increment and a
  sweeper pass after that.
\<close>

theorem Increment_create_then_Get:
  "fst (Increment ''missing'' 5 63929001600000000000 NewStringStore) = (5, None)
   \<and> data (snd (Increment ''missing'' 5 63929001600000000000 NewStringStore)) ''missing''
       = Some \<lparr>value = ''5'', createdAt = 63929001600000000000, expiresAt = zeroTime\<rparr>
   \<and> fst (Get ''missing'' 63929001600000000001
         (snd (Increment ''missing'' 5 63929001600000000000 NewStringStore)))
       = ('''', False)
   \<and> data (backgroundCleanup_pass 63929001600000000002 [''missing'']
         (snd (Increment ''missing'' 5 63929001600000000000 NewStringStore))) ''missing''
       = Some \<lparr>value = ''5'', createdAt = 63929001600000000000, expiresAt = zeroTime\<rparr>"
  by (simp add: Increment_def NewStringStore_def Get_def After_def zeroTime_def Sprintf_d_5
      backgroundCleanup_pass_def cleanup_step_def IsZero_def)

text \<open>
  C2. The claim: some duration given to Set stands for "no expiration" and is stored as
  the zero instant, so that Set can create an entry that never expires. The code's Set
  has no such duration: the expiry it stores is the second clock reading plus the
  duration, whatever the duration, and at a present-day clock reading that is the zero
  instant for no duration at all. With the duration zero, the expiry is the clock reading
  itself: a Get one nanosecond later does not find the entry and the next pass of the
  sweeper deletes it. Evaluated here at one clock reading, on the empty store.
\<close>

theorem Set_no_expiration:
  "\<not> (\<exists>d e. data (snd (Set ''k'' ''v'' d 63929001600000000000 63929001600000000000
                 NewStringStore)) ''k'' = Some e \<and> IsZero (expiresAt e))
   \<and> data (snd (Set ''k'' ''v'' 0 63929001600000000000 63929001600000000000
          NewStringStore)) ''k''
       = Some \<lparr>value = ''v'', createdAt = 63929001600000000000,
                expiresAt = 63929001600000000000\<rparr>
   \<and> fst (Get ''k'' 63929001600000000001
          (snd (Set ''k'' ''v'' 0 63929001600000000000 63929001600000000000
             NewStringStore)))
       = ('''', False)
   \<and> data (backgroundCleanup_pass 63929001600000000001 [''k'']
          (snd (Set ''k'' ''v'' 0 63929001600000000000 63929001600000000000
             NewStringStore))) ''k''
       = None"
proof -
  have none: "\<not> (\<exists>d e. data (snd (Set ''k'' ''v'' d 63929001600000000000
                 63929001600000000000 NewStringStore)) ''k'' = Some e \<and> IsZero (expiresAt e))"
  proof
    assume "\<exists>d e. data (snd (Set ''k'' ''v'' d 63929001600000000000 63929001600000000000
                 NewStringStore)) ''k'' = Some e \<and> IsZero (expiresAt e)"
    then obtain d :: Duration where "63929001600000000000 + sint d = 0"
      by (auto simp: Set_data IsZero_def Add_def)
    moreover have "- (2 ^ 63) \<le> sint d"
      using sint_ge [of d] by simp
    ultimately show False by simp
  qed
  have zero: "data (snd (Set ''k'' ''v'' 0 63929001600000000000 63929001600000000000
          NewStringStore)) ''k''
       = Some \<lparr>value = ''v'', createdAt = 63929001600000000000,
                expiresAt = 63929001600000000000\<rparr>"
    by (simp add: Set_data Add_def)
  have get: "fst (Get ''k'' 63929001600000000001
          (snd (Set ''k'' ''v'' 0 63929001600000000000 63929001600000000000
             NewStringStore)))
       = ('''', False)"
    by (simp add: Get_def zero After_def)
  have swept: "data (backgroundCleanup_pass 63929001600000000001 [''k'']
          (snd (Set ''k'' ''v'' 0 63929001600000000000 63929001600000000000
             NewStringStore))) ''k''
       = None"
    by (simp add: backgroundCleanup_pass_def cleanup_step_def zero IsZero_def After_def)
  show ?thesis
    using none zero get swept by blast
qed

text \<open>
  C3. The claim: Increment fails with NonNumericValue whenever the stored value is not a
  base-10 integer, and the store is then as before. The code scans the value with
  \<^verbatim>\<open>Sscanf\<close> and the verb \<^verbatim>\<open>%d\<close>, which reads the longest run of digits at the start and
  does not look at what follows it. A value that starts with digits and goes on with
  other text is therefore incremented: on the stored value \<^verbatim>\<open>"12abc"\<close>, Increment by 1
  returns 13 with no error and puts \<^verbatim>\<open>"13"\<close> in place of the value, which a later Get
  returns. On a value that starts with no digit, such as \<^verbatim>\<open>"abc"\<close>, the code does what
  the claim says. Evaluated here on stores of one entry.
\<close>

theorem Increment_numeric_prefix:
  "Sscanf_d ''12abc'' = Inr 12
   \<and> Increment ''s'' 1 63929001600000000002
       \<lparr>data = [''s'' \<mapsto> \<lparr>value = ''12abc'', createdAt = 63929001600000000000,
                          expiresAt = 63929001700000000000\<rparr>]\<rparr>
     = ((13, None),
        \<lparr>data = [''s'' \<mapsto> \<lparr>value = ''13'', createdAt = 63929001600000000000,
                           expiresAt = 63929001700000000000\<rparr>]\<rparr>)
   \<and> fst (Get ''s'' 63929001600000000003
       (snd (Increment ''s'' 1 63929001600000000002
          \<lparr>data = [''s'' \<mapsto> \<lparr>value = ''12abc'', createdAt = 63929001600000000000,
                             expiresAt = 63929001700000000000\<rparr>]\<rparr>)))
     = (''13'', True)
   \<and> Increment ''s'' 1 63929001600000000002
       \<lparr>data = [''s'' \<mapsto> \<lparr>value = ''abc'', createdAt = 63929001600000000000,
                          expiresAt = 63929001700000000000\<rparr>]\<rparr>
     = ((0, Some NonNumericValue),
        \<lparr>data = [''s'' \<mapsto> \<lparr>value = ''abc'', createdAt = 63929001600000000000,
                           expiresAt = 63929001700000000000\<rparr>]\<rparr>)"
proof -
  let ?e = "\<lparr>value = ''12abc'', createdAt = 63929001600000000000,
             expiresAt = 63929001700000000000\<rparr>"
  let ?e' = "\<lparr>value = ''13'', createdAt = 63929001600000000000,
             expiresAt = 63929001700000000000\<rparr>"
  let ?a = "\<lparr>value = ''abc'', createdAt = 63929001600000000000,
             expiresAt = 63929001700000000000\<rparr>"
  have inc: "Increment ''s'' 1 63929001600000000002 \<lparr>data = [''s'' \<mapsto> ?e]\<rparr>
      = ((13, None), \<lparr>data = [''s'' \<mapsto> ?e']\<rparr>)"
    by (simp add: Increment_def Sscanf_d_12abc Sprintf_d_13)
  have get: "fst (Get ''s'' 63929001600000000003 \<lparr>data = [''s'' \<mapsto> ?e']\<rparr>) = (''13'', True)"
    by (simp add: Get_def After_def)
  have err: "Increment ''s'' 1 63929001600000000002 \<lparr>data = [''s'' \<mapsto> ?a]\<rparr>
      = ((0, Some NonNumericValue), \<lparr>data = [''s'' \<mapsto> ?a]\<rparr>)"
    by (simp add: Increment_def Sscanf_d_abc)
  show ?thesis
    using inc get err by (simp add: Sscanf_d_12abc)
qed

text \<open>
  C4. Get returns the value, found, when the key has an entry and the clock is not after
  the entry's expiry, and not found otherwise; it never changes the store. The claim
  counts an entry with the zero instant as expiry as live. The code's Get has no test for
  the zero instant: it reports such an entry, which only Increment creates, as not found
  at every clock reading. Evaluated here on a store holding one such entry.
\<close>

theorem Get_entry_without_expiry:
  "IsZero (expiresAt \<lparr>value = ''5'', createdAt = 63929001600000000000, expiresAt = zeroTime\<rparr>)
   \<and> Get ''k'' 63929001600000000001
       \<lparr>data = [''k'' \<mapsto> \<lparr>value = ''5'', createdAt = 63929001600000000000,
                          expiresAt = zeroTime\<rparr>]\<rparr>
     = (('''', False),
        \<lparr>data = [''k'' \<mapsto> \<lparr>value = ''5'', createdAt = 63929001600000000000,
                          expiresAt = zeroTime\<rparr>]\<rparr>)"
  by (simp add: Get_def After_def IsZero_def zeroTime_def)

text \<open>
  C5. After Set with a positive duration, a Get no later than the duration after Set's
  clock reading returns the value set, found.
\<close>

theorem Set_then_Get:
  "0 < sint ttl \<Longrightarrow> now \<le> now2 + sint ttl \<Longrightarrow>
   fst (Get key now (snd (Set key val ttl now1 now2 s))) = (val, True)"
  by (simp add: Get_def Set_data After_def Add_def)

theorem Set_then_Get_witness:
  "0 < sint (1000000000 :: Duration)
   \<and> (63929001600000000002 :: int) \<le> 63929001600000000001 + sint (1000000000 :: Duration)
   \<and> fst (Get ''k'' 63929001600000000002
        (snd (Set ''k'' ''v'' 1000000000 63929001600000000000 63929001600000000001
           NewStringStore))) = (''v'', True)"
proof -
  have h1: "0 < sint (1000000000 :: Duration)" by simp
  have h2: "(63929001600000000002 :: int) \<le> 63929001600000000001 + sint (1000000000 :: Duration)"
    by simp
  show ?thesis
    using h1 h2 Set_then_Get [OF h1 h2, of "''k''" "''v''" 63929001600000000000 NewStringStore]
    by simp
qed



text \<open>
  C7. One pass of the sweeper over the map deletes the entries whose expiry is not the
  zero instant and lies before the pass's clock reading, and no others: every other entry
  is in the map after the pass as it was before.
\<close>

theorem backgroundCleanup_pass_removes:
  assumes "range_order (data s) ks"
  shows "data (backgroundCleanup_pass now ks s) key =
           (case data s key of
              None \<Rightarrow> None
            | Some entry \<Rightarrow>
                if \<not> IsZero (expiresAt entry) \<and> After now (expiresAt entry) then None
                else Some entry)"
proof (cases "data s key")
  case None
  then show ?thesis
    by (simp add: backgroundCleanup_pass_def cleanup_fold)
next
  case (Some entry)
  then have "key \<in> set ks"
    using assms by (auto simp: range_order_def)
  with Some show ?thesis
    by (simp add: backgroundCleanup_pass_def cleanup_fold)
qed

theorem backgroundCleanup_pass_removes_witness:
  "range_order
     (data \<lparr>data = [''old'' \<mapsto> \<lparr>value = ''a'', createdAt = 100, expiresAt = 200\<rparr>,
                    ''new'' \<mapsto> \<lparr>value = ''b'', createdAt = 100, expiresAt = 400\<rparr>,
                    ''ctr'' \<mapsto> \<lparr>value = ''7'', createdAt = 100, expiresAt = zeroTime\<rparr>]\<rparr>)
     [''new'', ''ctr'', ''old'']
   \<and> data (backgroundCleanup_pass 300 [''new'', ''ctr'', ''old'']
        \<lparr>data = [''old'' \<mapsto> \<lparr>value = ''a'', createdAt = 100, expiresAt = 200\<rparr>,
                 ''new'' \<mapsto> \<lparr>value = ''b'', createdAt = 100, expiresAt = 400\<rparr>,
                 ''ctr'' \<mapsto> \<lparr>value = ''7'', createdAt = 100, expiresAt = zeroTime\<rparr>]\<rparr>) ''old''
     = None
   \<and> data (backgroundCleanup_pass 300 [''new'', ''ctr'', ''old'']
        \<lparr>data = [''old'' \<mapsto> \<lparr>value = ''a'', createdAt = 100, expiresAt = 200\<rparr>,
                 ''new'' \<mapsto> \<lparr>value = ''b'', createdAt = 100, expiresAt = 400\<rparr>,
                 ''ctr'' \<mapsto> \<lparr>value = ''7'', createdAt = 100, expiresAt = zeroTime\<rparr>]\<rparr>) ''new''
     = Some \<lparr>value = ''b'', createdAt = 100, expiresAt = 400\<rparr>
   \<and> data (backgroundCleanup_pass 300 [''new'', ''ctr'', ''old'']
        \<lparr>data = [''old'' \<mapsto> \<lparr>value = ''a'', createdAt = 100, expiresAt = 200\<rparr>,
                 ''new'' \<mapsto> \<lparr>value = ''b'', createdAt = 100, expiresAt = 400\<rparr>,
                 ''ctr'' \<mapsto> \<lparr>value = ''7'', createdAt = 100, expiresAt = zeroTime\<rparr>]\<rparr>) ''ctr''
     = Some \<lparr>value = ''7'', createdAt = 100, expiresAt = zeroTime\<rparr>"
proof -
  let ?s = "\<lparr>data = [''old'' \<mapsto> \<lparr>value = ''a'', createdAt = 100, expiresAt = 200\<rparr>,
                 ''new'' \<mapsto> \<lparr>value = ''b'', createdAt = 100, expiresAt = 400\<rparr>,
                 ''ctr'' \<mapsto> \<lparr>value = ''7'', createdAt = 100, expiresAt = zeroTime\<rparr>]\<rparr>"
  have h: "range_order (data ?s) [''new'', ''ctr'', ''old'']"
    by (auto simp: range_order_def)
  show ?thesis
    using h backgroundCleanup_pass_removes [OF h, of 300 "''old''"]
      backgroundCleanup_pass_removes [OF h, of 300 "''new''"]
      backgroundCleanup_pass_removes [OF h, of 300 "''ctr''"]
    by (simp add: IsZero_def After_def zeroTime_def)
qed

text \<open>
  C8. Keys returns each key of the map once, whatever the entry's expiry: a key whose
  entry has expired and is still in the map is among them. It leaves the store as it was.
\<close>

theorem Keys_all_stored:
  assumes "range_order (data s) ks"
  shows "set (fst (Keys ks s)) = dom (data s)
         \<and> distinct (fst (Keys ks s))
         \<and> snd (Keys ks s) = s
         \<and> (\<forall>key entry now. data s key = Some entry \<and> After now (expiresAt entry)
               \<longrightarrow> key \<in> set (fst (Keys ks s)))"
  using assms by (auto simp: Keys_def fold_snoc range_order_def)

theorem Keys_all_stored_witness:
  "range_order
     (data \<lparr>data = [''old'' \<mapsto> \<lparr>value = ''a'', createdAt = 100, expiresAt = 200\<rparr>,
                    ''new'' \<mapsto> \<lparr>value = ''b'', createdAt = 100, expiresAt = 400\<rparr>]\<rparr>)
     [''new'', ''old'']
   \<and> After 300 (expiresAt \<lparr>value = ''a'', createdAt = 100, expiresAt = 200\<rparr>)
   \<and> ''old'' \<in> set (fst (Keys [''new'', ''old'']
        \<lparr>data = [''old'' \<mapsto> \<lparr>value = ''a'', createdAt = 100, expiresAt = 200\<rparr>,
                 ''new'' \<mapsto> \<lparr>value = ''b'', createdAt = 100, expiresAt = 400\<rparr>]\<rparr>))
   \<and> set (fst (Keys [''new'', ''old'']
        \<lparr>data = [''old'' \<mapsto> \<lparr>value = ''a'', createdAt = 100, expiresAt = 200\<rparr>,
                 ''new'' \<mapsto> \<lparr>value = ''b'', createdAt = 100, expiresAt = 400\<rparr>]\<rparr>))
     = {''old'', ''new''}"
proof -
  let ?old = "\<lparr>value = ''a'', createdAt = 100, expiresAt = 200\<rparr>"
  let ?s = "\<lparr>data = [''old'' \<mapsto> ?old,
                 ''new'' \<mapsto> \<lparr>value = ''b'', createdAt = 100, expiresAt = 400\<rparr>]\<rparr>"
  have h: "range_order (data ?s) [''new'', ''old'']"
    by (auto simp: range_order_def)
  have late: "After 300 (expiresAt ?old)"
    by (simp add: After_def)
  have there: "data ?s ''old'' = Some ?old"
    by simp
  note claim = Keys_all_stored [OF h]
  have "''old'' \<in> set (fst (Keys [''new'', ''old''] ?s))"
    using claim there late by blast
  moreover have "set (fst (Keys [''new'', ''old''] ?s)) = {''old'', ''new''}"
    using claim by auto
  ultimately show ?thesis
    using h late by simp
qed

text \<open>
  C9. Delete on a key that has an entry removes the entry and returns true; on a key
  without an entry it returns false and leaves the store as it was. After a Delete that
  returned true, Get does not find the key.
\<close>

theorem Delete_removes:
  "(data s key \<noteq> None \<longrightarrow>
      Delete key s = (True, s\<lparr>data := (data s)(key := None)\<rparr>)
      \<and> data (snd (Delete key s)) key = None)
   \<and> (data s key = None \<longrightarrow> Delete key s = (False, s))
   \<and> (fst (Delete key s) \<longrightarrow> fst (Get key now (snd (Delete key s))) = ('''', False))"
  by (auto simp: Delete_def Get_def split: option.splits)

theorem Delete_removes_witness:
  "Delete ''k'' (snd (Set ''k'' ''v'' 1000000000 63929001600000000000 63929001600000000001
       NewStringStore))
     = (True, NewStringStore)
   \<and> fst (Get ''k'' 63929001600000000002
       (snd (Delete ''k'' (snd (Set ''k'' ''v'' 1000000000 63929001600000000000
          63929001600000000001 NewStringStore)))))
     = ('''', False)
   \<and> Delete ''k'' NewStringStore = (False, NewStringStore)"
proof -
  let ?s = "snd (Set ''k'' ''v'' 1000000000 63929001600000000000 63929001600000000001
       NewStringStore)"
  have present: "data ?s ''k'' \<noteq> None"
    by (simp add: Set_data)
  have absent: "data NewStringStore ''k'' = None"
    by (simp add: NewStringStore_def)
  have del: "Delete ''k'' ?s = (True, ?s\<lparr>data := (data ?s)(''k'' := None)\<rparr>)"
    using Delete_removes [of ?s "''k''" 63929001600000000002] present by blast
  have "?s\<lparr>data := (data ?s)(''k'' := None)\<rparr> = NewStringStore"
    by (simp add: Set_def NewStringStore_def)
  with del have 1: "Delete ''k'' ?s = (True, NewStringStore)"
    by simp
  have 2: "fst (Get ''k'' 63929001600000000002 (snd (Delete ''k'' ?s))) = ('''', False)"
    using Delete_removes [of ?s "''k''" 63929001600000000002] del by simp
  have 3: "Delete ''k'' NewStringStore = (False, NewStringStore)"
    using Delete_removes [of NewStringStore "''k''" 63929001600000000002] absent by blast
  show ?thesis
    using 1 2 3 by simp
qed

text \<open>
  C10. Set, Delete and Increment on a key leave the entry of every other key as it was.
\<close>

theorem other_keys_unchanged:
  assumes "key' \<noteq> key"
  shows "data (snd (Set key val d now1 now2 s)) key' = data s key'
         \<and> data (snd (Delete key s)) key' = data s key'
         \<and> data (snd (Increment key delta now s)) key' = data s key'"
  using assms
  by (auto simp: Set_def Delete_def Increment_def Let_def split: option.splits sum.splits)

theorem other_keys_unchanged_witness:
  "''b'' \<noteq> ''a''
   \<and> data (snd (Set ''a'' ''x'' 1000000000 63929001600000000000 63929001600000000001
        \<lparr>data = [''a'' \<mapsto> \<lparr>value = ''1'', createdAt = 100, expiresAt = 200\<rparr>,
                 ''b'' \<mapsto> \<lparr>value = ''2'', createdAt = 300, expiresAt = 400\<rparr>]\<rparr>)) ''b''
     = Some \<lparr>value = ''2'', createdAt = 300, expiresAt = 400\<rparr>
   \<and> data (snd (Delete ''a''
        \<lparr>data = [''a'' \<mapsto> \<lparr>value = ''1'', createdAt = 100, expiresAt = 200\<rparr>,
                 ''b'' \<mapsto> \<lparr>value = ''2'', createdAt = 300, expiresAt = 400\<rparr>]\<rparr>)) ''b''
     = Some \<lparr>value = ''2'', createdAt = 300, expiresAt = 400\<rparr>
   \<and> data (snd (Increment ''a'' 5 63929001600000000000
        \<lparr>data = [''a'' \<mapsto> \<lparr>value = ''1'', createdAt = 100, expiresAt = 200\<rparr>,
                 ''b'' \<mapsto> \<lparr>value = ''2'', createdAt = 300, expiresAt = 400\<rparr>]\<rparr>)) ''b''
     = Some \<lparr>value = ''2'', createdAt = 300, expiresAt = 400\<rparr>"
proof -
  let ?s = "\<lparr>data = [''a'' \<mapsto> \<lparr>value = ''1'', createdAt = 100, expiresAt = 200\<rparr>,
                 ''b'' \<mapsto> \<lparr>value = ''2'', createdAt = 300, expiresAt = 400\<rparr>]\<rparr>"
  have h: "''b'' \<noteq> ''a''" by simp
  have b: "data ?s ''b'' = Some \<lparr>value = ''2'', createdAt = 300, expiresAt = 400\<rparr>"
    by simp
  show ?thesis
    using h b other_keys_unchanged [OF h, of "''x''" 1000000000 63929001600000000000
        63929001600000000001 ?s 5 63929001600000000000]
    by simp
qed

end
